theory Spec2Isabelle
  imports Complex_Main "HOL-Library.Word"
begin

section \<open>Python values\<close>

text \<open>
  A Python float is a finite value, an infinity or NaN. Comparisons on finite values are
  the comparisons of the reals they denote; every comparison with NaN is false.
\<close>

datatype pyfloat = Fin real | PosInf | NegInf | NaN

text \<open>\<open>float_ge a b\<close> is Python's \<open>a >= b\<close>, \<open>float_lt a b\<close> is \<open>a < b\<close>.\<close>

fun float_ge :: "pyfloat \<Rightarrow> pyfloat \<Rightarrow> bool" where
  "float_ge (Fin a) (Fin b) = (b \<le> a)"
| "float_ge (Fin a) PosInf = False"
| "float_ge (Fin a) NegInf = True"
| "float_ge PosInf (Fin b) = True"
| "float_ge PosInf PosInf = True"
| "float_ge PosInf NegInf = True"
| "float_ge NegInf (Fin b) = False"
| "float_ge NegInf PosInf = False"
| "float_ge NegInf NegInf = True"
| "float_ge NaN b = False"
| "float_ge a NaN = False"

fun float_lt :: "pyfloat \<Rightarrow> pyfloat \<Rightarrow> bool" where
  "float_lt (Fin a) (Fin b) = (a < b)"
| "float_lt (Fin a) PosInf = True"
| "float_lt (Fin a) NegInf = False"
| "float_lt PosInf (Fin b) = False"
| "float_lt PosInf PosInf = False"
| "float_lt PosInf NegInf = False"
| "float_lt NegInf (Fin b) = True"
| "float_lt NegInf PosInf = True"
| "float_lt NegInf NegInf = False"
| "float_lt NaN b = False"
| "float_lt a NaN = False"

text \<open>
  The values \<open>json.load\<close> produces and the values the client puts into its result
  dictionaries. A dictionary is kept as an association list, looked up with \<open>map_of\<close>.
\<close>

datatype pyval =
    PyNone
  | PyBool bool
  | PyInt int
  | PyFloat pyfloat
  | PyStr string
  | PyList "pyval list"
  | PyTuple "pyval list"
  | PyDict "(string \<times> pyval) list"

text \<open>Python's truth test, as \<open>if port:\<close> applies it.\<close>

fun truthy :: "pyval \<Rightarrow> bool" where
  "truthy PyNone = False"
| "truthy (PyBool b) = b"
| "truthy (PyInt i) = (i \<noteq> 0)"
| "truthy (PyFloat f) = (f \<noteq> Fin 0)"
| "truthy (PyStr s) = (s \<noteq> [])"
| "truthy (PyList vs) = (vs \<noteq> [])"
| "truthy (PyTuple vs) = (vs \<noteq> [])"
| "truthy (PyDict kvs) = (kvs \<noteq> [])"

text \<open>The truth test on an optional string argument (\<open>if image:\<close>, \<open>elif folder:\<close>).\<close>

fun str_truthy :: "string option \<Rightarrow> bool" where
  "str_truthy None = False"
| "str_truthy (Some s) = (s \<noteq> [])"

section \<open>Exceptions\<close>

text \<open>\<open>grpc.StatusCode\<close>; \<open>str\<close> of a member is \<open>StatusCode.\<close> followed by its name.\<close>

datatype status_code =
    OK | CANCELLED | UNKNOWN | INVALID_ARGUMENT | DEADLINE_EXCEEDED | NOT_FOUND
  | ALREADY_EXISTS | PERMISSION_DENIED | RESOURCE_EXHAUSTED | FAILED_PRECONDITION
  | ABORTED | OUT_OF_RANGE | UNIMPLEMENTED | INTERNAL | UNAVAILABLE | DATA_LOSS
  | UNAUTHENTICATED

fun str_status_code :: "status_code \<Rightarrow> string" where
  "str_status_code OK = ''StatusCode.OK''"
| "str_status_code CANCELLED = ''StatusCode.CANCELLED''"
| "str_status_code UNKNOWN = ''StatusCode.UNKNOWN''"
| "str_status_code INVALID_ARGUMENT = ''StatusCode.INVALID_ARGUMENT''"
| "str_status_code DEADLINE_EXCEEDED = ''StatusCode.DEADLINE_EXCEEDED''"
| "str_status_code NOT_FOUND = ''StatusCode.NOT_FOUND''"
| "str_status_code ALREADY_EXISTS = ''StatusCode.ALREADY_EXISTS''"
| "str_status_code PERMISSION_DENIED = ''StatusCode.PERMISSION_DENIED''"
| "str_status_code RESOURCE_EXHAUSTED = ''StatusCode.RESOURCE_EXHAUSTED''"
| "str_status_code FAILED_PRECONDITION = ''StatusCode.FAILED_PRECONDITION''"
| "str_status_code ABORTED = ''StatusCode.ABORTED''"
| "str_status_code OUT_OF_RANGE = ''StatusCode.OUT_OF_RANGE''"
| "str_status_code UNIMPLEMENTED = ''StatusCode.UNIMPLEMENTED''"
| "str_status_code INTERNAL = ''StatusCode.INTERNAL''"
| "str_status_code UNAVAILABLE = ''StatusCode.UNAVAILABLE''"
| "str_status_code DATA_LOSS = ''StatusCode.DATA_LOSS''"
| "str_status_code UNAUTHENTICATED = ''StatusCode.UNAUTHENTICATED''"

text \<open>
  The exceptions of the model, all of them subclasses of Python's \<open>Exception\<close>:
  \<^item> \<open>RpcError code details\<close>: the \<open>grpc.RpcError\<close> a stub call raises, with what its
    \<open>code()\<close> and \<open>details()\<close> return (a call that runs out of its timeout raises it
    with \<open>DEADLINE_EXCEEDED\<close>);
  \<^item> \<open>Exception msg\<close>: the plain \<open>Exception(msg)\<close> that \<open>detect_objects\<close> and
    \<open>segment_sheets\<close> raise themselves;
  \<^item> \<open>AttributeError msg\<close>: an attribute looked up on a value that lacks it;
  \<^item> \<open>OtherException msg\<close>: any other exception class (\<open>OSError\<close>,
    \<open>JSONDecodeError\<close>, \<open>ValueError\<close>, ...).
  Exceptions outside \<open>Exception\<close> (\<open>KeyboardInterrupt\<close>, \<open>SystemExit\<close>) are not
  modelled.
\<close>

datatype exn =
    RpcError status_code string
  | Exception string
  | AttributeError string
  | OtherException string

section \<open>Messages of the remote service\<close>

type_synonym bytes = "8 word list"

text \<open>
  \<open>DetectObjectsRequest\<close> and \<open>SegmentSheetsRequest\<close> have the same fields. The field
  \<open>id\<close> is \<open>req_id\<close> here.
\<close>

record request =
  req_id :: string
  image_bytes :: bytes
  image_height :: int
  image_width :: int
  channels :: int

text \<open>
  A prediction of a response. A segmentation prediction has the polygon points in
  addition; a point's fields \<open>x\<close> and \<open>y\<close> are \<open>pt_x\<close> and \<open>pt_y\<close> here.
\<close>

record prediction =
  prediction_class :: string
  confidence :: pyfloat
  center_x :: pyfloat
  center_y :: pyfloat
  width :: pyfloat
  height :: pyfloat

datatype point = Point (pt_x: pyfloat) (pt_y: pyfloat)

record seg_prediction = prediction +
  polygon_points :: "point list"

record health_response =
  status :: int

section \<open>The world outside the client\<close>

text \<open>The state of a configuration file when \<open>_get_port_from_config\<close> looks at it.\<close>

datatype file_state =
    Missing
    \<comment> \<open>\<open>config_path.exists()\<close> is false\<close>
  | LoadFails exn
    \<comment> \<open>the file exists and \<open>open\<close> or \<open>json.load\<close> raises (malformed JSON)\<close>
  | Content pyval
    \<comment> \<open>the file exists and \<open>json.load\<close> returns this value\<close>

text \<open>One constructor for each \<open>print\<close> of the source that reports an outcome.\<close>

datatype printed =
    Connected "string \<times> pyval"
  | ReadPort pyval string
  | ConfigFailed string exn
  | DefaultPort
  | HealthCheckFailed status_code string
  | HealthCheckError exn
  | ClosedConnection
  | InitFailed exn
  | ServiceUnavailable
  | NoPathGiven
  | NoImagesFound
  | ErrorProcessing exn
  | ProfilingComplete

text \<open>A stub invocation, with the timeout (in seconds) it was given.\<close>

datatype rpc_call =
    CheckCall real
  | DetectObjectsCall request real
  | SegmentSheetsCall request real

text \<open>A channel object: its target, its options, and how often \<open>close()\<close> was called on it.\<close>

record chan =
  chan_target :: "string \<times> pyval"
  chan_options :: "(string \<times> int) list"
  close_calls :: nat

text \<open>
  Everything the client reads from or writes to its environment.
  \<^item> \<open>config_files\<close>: the state of the file at each path.
  \<^item> \<open>channel_create\<close>: the exception \<open>grpc.insecure_channel\<close> raises for a target, if any.
  \<^item> \<open>channel_store\<close>: the channel objects created so far; a channel is referred to by
    its index.
  \<^item> \<open>uuid4\<close>, \<open>uuid_count\<close>: the text of the n-th \<open>uuid.uuid4()\<close> and how many were drawn.
  \<^item> \<open>rpc_Check\<close>, \<open>rpc_DetectObjects\<close>, \<open>rpc_SegmentSheets\<close>: what the remote service
    answers to the n-th stub invocation: a response, or the exception raised.
  \<^item> \<open>rpc_log\<close>: the stub invocations made so far.
  \<^item> \<open>stdout\<close>: the lines printed so far.
  \<^item> \<open>glob\<close>: the paths \<open>Path(folder).glob(pattern)\<close> yields.
  \<^item> \<open>load_image\<close>: the raw bytes that opening the image, resizing it to 2560 x 2048 and
    normalising it to three channels produce, or the exception raised on the way.
\<close>

record world =
  config_files :: "string \<Rightarrow> file_state"
  channel_create :: "string \<times> pyval \<Rightarrow> exn option"
  channel_store :: "chan list"
  uuid4 :: "nat \<Rightarrow> string"
  uuid_count :: nat
  rpc_Check :: "nat \<Rightarrow> exn + health_response"
  rpc_DetectObjects :: "nat \<Rightarrow> request \<Rightarrow> exn + prediction list"
  rpc_SegmentSheets :: "nat \<Rightarrow> request \<Rightarrow> exn + seg_prediction list"
  rpc_log :: "rpc_call list"
  stdout :: "printed list"
  glob :: "string \<Rightarrow> string \<Rightarrow> string list"
  load_image :: "string \<Rightarrow> exn + bytes"

definition print :: "printed \<Rightarrow> world \<Rightarrow> world" where
  "print line w = w\<lparr>stdout := stdout w @ [line]\<rparr>"

definition new_uuid4 :: "world \<Rightarrow> string \<times> world" where
  "new_uuid4 w = (uuid4 w (uuid_count w), w\<lparr>uuid_count := Suc (uuid_count w)\<rparr>)"

definition insecure_channel ::
  "string \<times> pyval \<Rightarrow> (string \<times> int) list \<Rightarrow> world \<Rightarrow> (exn + nat) \<times> world" where
  "insecure_channel tgt opts w =
     (case channel_create w tgt of
        Some e \<Rightarrow> (Inl e, w)
      | None \<Rightarrow>
          (Inr (length (channel_store w)),
           w\<lparr>channel_store := channel_store w @
               [\<lparr>chan_target = tgt, chan_options = opts, close_calls = 0\<rparr>]\<rparr>))"

text \<open>\<open>channel.close()\<close>: grpc documents it as idempotent; it raises nothing.\<close>

definition channel_close :: "nat \<Rightarrow> world \<Rightarrow> world" where
  "channel_close ch w =
     w\<lparr>channel_store := (channel_store w)
         [ch := (channel_store w ! ch)\<lparr>close_calls := Suc (close_calls (channel_store w ! ch))\<rparr>]\<rparr>"

definition stub_Check :: "real \<Rightarrow> world \<Rightarrow> (exn + health_response) \<times> world" where
  "stub_Check timeout w =
     (rpc_Check w (length (rpc_log w)), w\<lparr>rpc_log := rpc_log w @ [CheckCall timeout]\<rparr>)"

definition stub_DetectObjects ::
  "request \<Rightarrow> real \<Rightarrow> world \<Rightarrow> (exn + prediction list) \<times> world" where
  "stub_DetectObjects req timeout w =
     (rpc_DetectObjects w (length (rpc_log w)) req,
      w\<lparr>rpc_log := rpc_log w @ [DetectObjectsCall req timeout]\<rparr>)"

definition stub_SegmentSheets ::
  "request \<Rightarrow> real \<Rightarrow> world \<Rightarrow> (exn + seg_prediction list) \<times> world" where
  "stub_SegmentSheets req timeout w =
     (rpc_SegmentSheets w (length (rpc_log w)) req,
      w\<lparr>rpc_log := rpc_log w @ [SegmentSheetsCall req timeout]\<rparr>)"

section \<open>InferenceClient\<close>

text \<open>
  The attributes \<open>__init__\<close> sets. \<open>address\<close> is the text \<open>host:port\<close>, kept as the pair
  of its two parts. \<open>channel\<close> is the index of the channel object (\<open>None\<close> is Python's
  \<open>None\<close>); \<open>stub\<close> is the stub, which wraps that channel.
\<close>

record client =
  port :: pyval
  host :: string
  address :: "string \<times> pyval"
  channel :: "nat option"
  stub :: nat

subsection \<open>\<open>_get_port_from_config\<close>\<close>

definition path_sep :: string where
  "path_sep = [CHR 0x5C]"

definition workcell_base_json :: string where
  "workcell_base_json =
     ''C:'' @ path_sep @ ''Ripcord'' @ path_sep @ ''settings'' @ path_sep @ ''workcell_base.json''"

definition workcell_json :: string where
  "workcell_json =
     ''C:'' @ path_sep @ ''Ripcord'' @ path_sep @ ''settings'' @ path_sep @ ''workcell.json''"

definition config_paths :: "string list" where
  "config_paths = [workcell_base_json, workcell_json]"

text \<open>\<open>d.get(key, default)\<close>: only a dictionary has the method.\<close>

fun py_get :: "pyval \<Rightarrow> string \<Rightarrow> pyval \<Rightarrow> exn + pyval" where
  "py_get (PyDict kvs) key dflt = Inr (case map_of kvs key of None \<Rightarrow> dflt | Some v \<Rightarrow> v)"
| "py_get v key dflt = Inl (AttributeError ''get'')"

text \<open>The chain of four \<open>.get\<close> calls on the loaded configuration.\<close>

definition server_port :: "pyval \<Rightarrow> exn + pyval" where
  "server_port config =
     (case py_get config ''ApplicationGrpcSettings'' (PyDict []) of
        Inl e \<Rightarrow> Inl e
      | Inr a \<Rightarrow>
     (case py_get a ''GrpcServices'' (PyDict []) of
        Inl e \<Rightarrow> Inl e
      | Inr b \<Rightarrow>
     (case py_get b ''AreaScanInference'' (PyDict []) of
        Inl e \<Rightarrow> Inl e
      | Inr c \<Rightarrow> py_get c ''ServerPort'' PyNone)))"

text \<open>
  The loop over the candidate paths: \<open>Some p\<close> when \<open>return port\<close> is reached, \<open>None\<close>
  when the loop ends.
\<close>

fun scan_config_paths :: "string list \<Rightarrow> world \<Rightarrow> pyval option \<times> world" where
  "scan_config_paths [] w = (None, w)"
| "scan_config_paths (config_path # rest) w =
     (case config_files w config_path of
        Missing \<Rightarrow> scan_config_paths rest w
      | LoadFails e \<Rightarrow> scan_config_paths rest (print (ConfigFailed config_path e) w)
      | Content config \<Rightarrow>
          (case server_port config of
             Inl e \<Rightarrow> scan_config_paths rest (print (ConfigFailed config_path e) w)
           | Inr p \<Rightarrow>
               if truthy p then (Some p, print (ReadPort p config_path) w)
               else scan_config_paths rest w))"

definition get_port_from_config :: "world \<Rightarrow> (exn + pyval) \<times> world" where
  "get_port_from_config w =
     (case scan_config_paths config_paths w of
        (Some p, w1) \<Rightarrow> (Inr p, w1)
      | (None, w1) \<Rightarrow> (Inr (PyInt 60021), print DefaultPort w1))"

subsection \<open>\<open>__init__\<close>\<close>

definition init :: "int option \<Rightarrow> string \<Rightarrow> world \<Rightarrow> (exn + client) \<times> world" where
  "init port_arg host_arg w =
     (case (case port_arg of
              None \<Rightarrow> get_port_from_config w
            | Some n \<Rightarrow> (Inr (PyInt n), w)) of
        (Inl e, w1) \<Rightarrow> (Inl e, w1)
      | (Inr p, w1) \<Rightarrow>
          (case insecure_channel (host_arg, p)
                  [(''grpc.max_receive_message_length'', 52428800),
                   (''grpc.max_send_message_length'', 52428800),
                   (''grpc.keepalive_time_ms'', 10000),
                   (''grpc.keepalive_timeout_ms'', 5000)] w1 of
             (Inl e, w2) \<Rightarrow> (Inl e, w2)
           | (Inr ch, w2) \<Rightarrow>
               (Inr \<lparr>port = p, host = host_arg, address = (host_arg, p),
                     channel = Some ch, stub = ch\<rparr>,
                print (Connected (host_arg, p)) w2)))"

subsection \<open>\<open>check_health\<close>\<close>

text \<open>
  \<open>SERVING\<close> is \<open>ripcord_grpc_pb2.HealthCheckResponse.SERVING\<close>, a constant of the
  generated module, taken as a parameter.
\<close>

definition check_health :: "int \<Rightarrow> client \<Rightarrow> world \<Rightarrow> (exn + bool) \<times> world" where
  "check_health SERVING self w =
     (case stub_Check 5 w of
        (Inr response, w1) \<Rightarrow> (Inr (status response = SERVING), w1)
      | (Inl (RpcError code details), w1) \<Rightarrow> (Inr False, print (HealthCheckFailed code details) w1)
      | (Inl e, w1) \<Rightarrow> (Inr False, print (HealthCheckError e) w1))"

subsection \<open>\<open>detect_objects\<close> and \<open>segment_sheets\<close>\<close>

definition detection_dict :: "prediction \<Rightarrow> (string \<times> pyval) list" where
  "detection_dict pred =
     [(''class'', PyStr (prediction_class pred)),
      (''confidence'', PyFloat (confidence pred)),
      (''center_x'', PyFloat (center_x pred)),
      (''center_y'', PyFloat (center_y pred)),
      (''width'', PyFloat (width pred)),
      (''height'', PyFloat (height pred))]"

definition segment_dict :: "seg_prediction \<Rightarrow> (string \<times> pyval) list" where
  "segment_dict pred =
     [(''class'', PyStr (prediction_class pred)),
      (''confidence'', PyFloat (confidence pred)),
      (''center_x'', PyFloat (center_x pred)),
      (''center_y'', PyFloat (center_y pred)),
      (''width'', PyFloat (width pred)),
      (''height'', PyFloat (height pred)),
      (''polygon_points'',
         PyList (map (\<lambda>pt. PyTuple [PyFloat (pt_x pt), PyFloat (pt_y pt)]) (polygon_points pred)))]"

definition detect_objects ::
  "client \<Rightarrow> bytes \<Rightarrow> int \<Rightarrow> int \<Rightarrow> pyfloat \<Rightarrow> world \<Rightarrow> (exn + (string \<times> pyval) list) \<times> world" where
  "detect_objects self img img_width img_height confidence_threshold w =
     (case new_uuid4 w of (uuid, w1) \<Rightarrow>
     (case stub_DetectObjects
             \<lparr>req_id = uuid, image_bytes = img, image_height = img_height,
              image_width = img_width, channels = 3\<rparr> 30 w1 of
        (Inr response, w2) \<Rightarrow>
          (let predictions =
                 map detection_dict
                   (filter (\<lambda>pred. float_ge (confidence pred) confidence_threshold) response)
           in (Inr [(''prediction_count'', PyInt (int (length predictions))),
                    (''predictions'', PyList (map PyDict predictions))], w2))
      | (Inl (RpcError code details), w2) \<Rightarrow>
          (Inl (Exception (''Object detection failed: '' @ str_status_code code @ '' - '' @ details)), w2)
      | (Inl e, w2) \<Rightarrow> (Inl e, w2)))"

definition segment_sheets ::
  "client \<Rightarrow> bytes \<Rightarrow> int \<Rightarrow> int \<Rightarrow> pyfloat \<Rightarrow> world \<Rightarrow> (exn + (string \<times> pyval) list) \<times> world" where
  "segment_sheets self img img_width img_height confidence_threshold w =
     (case new_uuid4 w of (uuid, w1) \<Rightarrow>
     (case stub_SegmentSheets
             \<lparr>req_id = uuid, image_bytes = img, image_height = img_height,
              image_width = img_width, channels = 3\<rparr> 30 w1 of
        (Inr response, w2) \<Rightarrow>
          (let predictions =
                 map segment_dict
                   (filter (\<lambda>pred. float_ge (confidence pred) confidence_threshold) response)
           in (Inr [(''prediction_count'', PyInt (int (length predictions))),
                    (''predictions'', PyList (map PyDict predictions))], w2))
      | (Inl (RpcError code details), w2) \<Rightarrow>
          (Inl (Exception (''Sheet segmentation failed: '' @ str_status_code code @ '' - '' @ details)), w2)
      | (Inl e, w2) \<Rightarrow> (Inl e, w2)))"

subsection \<open>\<open>close\<close>\<close>

definition close :: "client \<Rightarrow> world \<Rightarrow> (exn + unit) \<times> world" where
  "close self w =
     (case channel self of
        None \<Rightarrow> (Inr (), w)
      | Some ch \<Rightarrow> (Inr (), print ClosedConnection (channel_close ch w)))"

section \<open>The command-line tool\<close>

datatype model_choice = detection | segmentation | both

text \<open>
  The body of the \<open>try\<close> of the loop, for one image. The progress lines it prints and
  the latency it measures are left out; they decide nothing below.
\<close>

definition process_image ::
  "client \<Rightarrow> model_choice \<Rightarrow> pyfloat \<Rightarrow> string \<Rightarrow> world \<Rightarrow> (exn + unit) \<times> world" where
  "process_image cl model_arg confidence_arg img_path w =
     (case load_image w img_path of
        Inl e \<Rightarrow> (Inl e, w)
      | Inr img \<Rightarrow>
          (case (if model_arg \<in> {detection, both}
                 then (case detect_objects cl img 2560 2048 confidence_arg w of
                         (Inl e, w1) \<Rightarrow> (Inl e, w1)
                       | (Inr result, w1) \<Rightarrow> (Inr (), w1))
                 else (Inr (), w)) of
             (Inl e, w1) \<Rightarrow> (Inl e, w1)
           | (Inr u, w1) \<Rightarrow>
               (if model_arg \<in> {segmentation, both}
                then (case segment_sheets cl img 2560 2048 confidence_arg w1 of
                        (Inl e, w2) \<Rightarrow> (Inl e, w2)
                      | (Inr result, w2) \<Rightarrow> (Inr (), w2))
                else (Inr (), w1))))"

text \<open>The loop: an exception of one image is printed and the loop goes on.\<close>

fun process_images ::
  "client \<Rightarrow> model_choice \<Rightarrow> pyfloat \<Rightarrow> string list \<Rightarrow> world \<Rightarrow> world" where
  "process_images cl model_arg confidence_arg [] w = w"
| "process_images cl model_arg confidence_arg (img_path # rest) w =
     (case process_image cl model_arg confidence_arg img_path w of
        (Inl e, w1) \<Rightarrow>
          process_images cl model_arg confidence_arg rest (print (ErrorProcessing e) w1)
      | (Inr u, w1) \<Rightarrow> process_images cl model_arg confidence_arg rest w1)"

text \<open>
  The image paths: \<open>None\<close> when neither \<open>--image\<close> nor \<open>--folder\<close> was given.
\<close>

definition image_paths_of :: "string option \<Rightarrow> string option \<Rightarrow> world \<Rightarrow> string list option" where
  "image_paths_of image_arg folder_arg w =
     (if str_truthy image_arg then Some [the image_arg]
      else if str_truthy folder_arg then
        Some (glob w (the folder_arg) ''*.jpg'' @ glob w (the folder_arg) ''*.png'' @
              glob w (the folder_arg) ''*.jpeg'' @ glob w (the folder_arg) ''*.bmp'')
      else None)"

text \<open>
  The function \<open>main\<close>: the value it returns, or the exception that leaves it. The
  summary it prints after the loop is left out.
\<close>

definition main ::
  "int \<Rightarrow> string option \<Rightarrow> string option \<Rightarrow> model_choice \<Rightarrow> int option \<Rightarrow> pyfloat \<Rightarrow> string
     \<Rightarrow> world \<Rightarrow> (exn + int) \<times> world" where
  "main SERVING image_arg folder_arg model_arg port_arg confidence_arg host_arg w =
     (case init port_arg host_arg w of
        (Inl e, w1) \<Rightarrow> (Inr 1, print (InitFailed e) w1)
      | (Inr cl, w1) \<Rightarrow>
          (case check_health SERVING cl w1 of
             (Inl e, w2) \<Rightarrow> (Inl e, w2)
           | (Inr healthy, w2) \<Rightarrow>
               if \<not> healthy then (Inr 1, print ServiceUnavailable w2)
               else
                 (case image_paths_of image_arg folder_arg w2 of
                    None \<Rightarrow> (Inr 1, print NoPathGiven w2)
                  | Some image_paths \<Rightarrow>
                      if image_paths = [] then (Inr 1, print NoImagesFound w2)
                      else
                        (case close cl
                                (process_images cl model_arg confidence_arg image_paths w2) of
                           (Inl e, w3) \<Rightarrow> (Inl e, w3)
                         | (Inr u, w3) \<Rightarrow> (Inr 0, print ProfilingComplete w3)))))"

text \<open>
  \<open>main\<close> is decorated with \<open>click.command()\<close>, so \<open>exit(main())\<close> and the console
  script of \<open>setup.py\<close> call the click command, not the function. Called without
  \<open>standalone_mode=False\<close>, a click command invokes the function, drops the value it
  returns and ends the process with status 0; an exception that leaves the function ends
  the process with status 1. \<open>click_standalone\<close> is the exit status of the process.
\<close>

definition click_standalone :: "exn + int \<Rightarrow> int" where
  "click_standalone rv = (case rv of Inl e \<Rightarrow> 1 | Inr v \<Rightarrow> 0)"

definition cli_exit_status ::
  "int \<Rightarrow> string option \<Rightarrow> string option \<Rightarrow> model_choice \<Rightarrow> int option \<Rightarrow> pyfloat \<Rightarrow> string
     \<Rightarrow> world \<Rightarrow> int" where
  "cli_exit_status SERVING image_arg folder_arg model_arg port_arg confidence_arg host_arg w =
     click_standalone
       (fst (main SERVING image_arg folder_arg model_arg port_arg confidence_arg host_arg w))"

section \<open>Sequences of calls, classes of configuration files, example inputs\<close>

text \<open>
  What a caller may do with a constructed client, and the world after a sequence of such
  calls (the results are dropped; an exception of one call does not stop the caller).
\<close>

datatype client_call =
    CallCheckHealth
  | CallDetectObjects bytes int int pyfloat
  | CallSegmentSheets bytes int int pyfloat
  | CallClose

fun run_call :: "int \<Rightarrow> client \<Rightarrow> client_call \<Rightarrow> world \<Rightarrow> world" where
  "run_call SERVING cl CallCheckHealth w = snd (check_health SERVING cl w)"
| "run_call SERVING cl (CallDetectObjects img iw ih t) w = snd (detect_objects cl img iw ih t w)"
| "run_call SERVING cl (CallSegmentSheets img iw ih t) w = snd (segment_sheets cl img iw ih t w)"
| "run_call SERVING cl CallClose w = snd (close cl w)"

fun run_calls :: "int \<Rightarrow> client \<Rightarrow> client_call list \<Rightarrow> world \<Rightarrow> world" where
  "run_calls SERVING cl [] w = w"
| "run_calls SERVING cl (c # cs) w = run_calls SERVING cl cs (run_call SERVING cl c w)"

text \<open>The request ids of the logged stub invocations, oldest first.\<close>

fun request_ids :: "rpc_call list \<Rightarrow> string list" where
  "request_ids [] = []"
| "request_ids (CheckCall timeout # cs) = request_ids cs"
| "request_ids (DetectObjectsCall req timeout # cs) = req_id req # request_ids cs"
| "request_ids (SegmentSheetsCall req timeout # cs) = req_id req # request_ids cs"

text \<open>
  \<open>key_missing keys v\<close>: walking down \<open>keys\<close> from the dictionary \<open>v\<close>, some key of
  the path is absent from the dictionary reached.
\<close>

fun key_missing :: "string list \<Rightarrow> pyval \<Rightarrow> bool" where
  "key_missing [] v = False"
| "key_missing (k # ks) (PyDict kvs) =
     (case map_of kvs k of None \<Rightarrow> True | Some v \<Rightarrow> key_missing ks v)"
| "key_missing (k # ks) v = False"

definition server_port_keys :: "string list" where
  "server_port_keys =
     [''ApplicationGrpcSettings'', ''GrpcServices'', ''AreaScanInference'', ''ServerPort'']"

text \<open>
  The states of a configuration file that yield no port: the file is missing, it is
  malformed (loading it raises), or a key of the nested path is missing.
\<close>

fun no_value :: "file_state \<Rightarrow> bool" where
  "no_value Missing = True"
| "no_value (LoadFails e) = True"
| "no_value (Content config) = key_missing server_port_keys config"

text \<open>The file holds the value \<open>v\<close> under the nested key.\<close>

fun configured :: "pyval \<Rightarrow> file_state \<Rightarrow> bool" where
  "configured v (Content config) = (server_port config = Inr v)"
| "configured v st = False"

text \<open>A configuration document with \<open>v\<close> as its \<open>ServerPort\<close>.\<close>

definition config_with :: "pyval \<Rightarrow> pyval" where
  "config_with v =
     PyDict [(''ApplicationGrpcSettings'',
       PyDict [(''GrpcServices'',
         PyDict [(''AreaScanInference'', PyDict [(''ServerPort'', v)])])])]"

text \<open>
  A world in which no configuration file exists, every channel can be created, the
  service reports status 1 and answers with no predictions, and nothing has happened yet.
\<close>

definition quiet_world :: world where
  "quiet_world =
     \<lparr>config_files = (\<lambda>p. Missing),
      channel_create = (\<lambda>t. None),
      channel_store = [],
      uuid4 = (\<lambda>n. replicate (Suc n) (CHR ''u'')),
      uuid_count = 0,
      rpc_Check = (\<lambda>n. Inr \<lparr>status = 1\<rparr>),
      rpc_DetectObjects = (\<lambda>n r. Inr []),
      rpc_SegmentSheets = (\<lambda>n r. Inr []),
      rpc_log = [],
      stdout = [],
      glob = (\<lambda>d p. []),
      load_image = (\<lambda>p. Inr [])\<rparr>"

text \<open>The world after a client was constructed in \<open>quiet_world\<close> with port 60021.\<close>

definition connected_world :: world where
  "connected_world = snd (init (Some 60021) ''localhost'' quiet_world)"

text \<open>
  \<open>quiet_world\<close> with the two candidate configuration files in the given states.
\<close>

definition config_world :: "file_state \<Rightarrow> file_state \<Rightarrow> world" where
  "config_world base_state workcell_state =
     quiet_world\<lparr>config_files := (\<lambda>p. if p = workcell_base_json then base_state
                                      else if p = workcell_json then workcell_state
                                      else Missing)\<rparr>"

definition example_client :: client where
  "example_client =
     \<lparr>port = PyInt 60021, host = ''localhost'', address = (''localhost'', PyInt 60021),
      channel = Some 0, stub = 0\<rparr>"

definition example_prediction :: "pyfloat \<Rightarrow> prediction" where
  "example_prediction c =
     \<lparr>prediction_class = ''sheet'', confidence = c, center_x = Fin 10, center_y = Fin 20,
      width = Fin 5, height = Fin 6\<rparr>"

definition example_seg_prediction :: "pyfloat \<Rightarrow> seg_prediction" where
  "example_seg_prediction c =
     \<lparr>prediction_class = ''sheet'', confidence = c, center_x = Fin 10, center_y = Fin 20,
      width = Fin 5, height = Fin 6, polygon_points = [Point (Fin 1) (Fin 2)]\<rparr>"

text \<open>
  The request ids logged so far are pairwise different and were all drawn from the
  generator before.
\<close>

definition ids_fresh :: "world \<Rightarrow> bool" where
  "ids_fresh w \<longleftrightarrow> distinct (request_ids (rpc_log w))
      \<and> set (request_ids (rpc_log w)) \<subseteq> uuid4 w ` {..<uuid_count w}"

section \<open>Helper lemmas\<close>

lemma float_ge_not_lt: "float_ge a b \<Longrightarrow> \<not> float_lt a b"
  by (cases a; cases b) auto


lemma snd_detect_objects:
  "snd (detect_objects self img iw ih t w) =
     w\<lparr>uuid_count := Suc (uuid_count w),
       rpc_log := rpc_log w @ [DetectObjectsCall
         \<lparr>req_id = uuid4 w (uuid_count w), image_bytes = img, image_height = ih,
          image_width = iw, channels = 3\<rparr> 30]\<rparr>"
  by (simp add: detect_objects_def new_uuid4_def stub_DetectObjects_def
      split: sum.splits exn.splits prod.splits)

lemma snd_segment_sheets:
  "snd (segment_sheets self img iw ih t w) =
     w\<lparr>uuid_count := Suc (uuid_count w),
       rpc_log := rpc_log w @ [SegmentSheetsCall
         \<lparr>req_id = uuid4 w (uuid_count w), image_bytes = img, image_height = ih,
          image_width = iw, channels = 3\<rparr> 30]\<rparr>"
  by (simp add: segment_sheets_def new_uuid4_def stub_SegmentSheets_def
      split: sum.splits exn.splits prod.splits)

lemma snd_check_health:
  "\<exists>lines. snd (check_health SERVING self w) =
     w\<lparr>rpc_log := rpc_log w @ [CheckCall 5], stdout := stdout w @ lines\<rparr>"
proof (cases "rpc_Check w (length (rpc_log w))")
  case (Inl e)
  then show ?thesis
    by (cases e) (auto simp add: check_health_def stub_Check_def print_def)
next
  case (Inr r)
  then have "snd (check_health SERVING self w) =
     w\<lparr>rpc_log := rpc_log w @ [CheckCall 5], stdout := stdout w @ []\<rparr>"
    by (simp add: check_health_def stub_Check_def)
  then show ?thesis by blast
qed

lemma snd_close:
  "snd (close self w) =
     (case channel self of None \<Rightarrow> w
      | Some ch \<Rightarrow> w\<lparr>channel_store := (channel_store w)
           [ch := (channel_store w ! ch)\<lparr>close_calls := Suc (close_calls (channel_store w ! ch))\<rparr>],
          stdout := stdout w @ [ClosedConnection]\<rparr>)"
  by (simp add: close_def channel_close_def print_def split: option.splits)

lemma request_ids_append: "request_ids (xs @ ys) = request_ids xs @ request_ids ys"
  by (induction xs rule: request_ids.induct) auto

lemma run_call_uuid4: "uuid4 (run_call SERVING cl c w) = uuid4 w"
proof (cases c)
  case CallCheckHealth
  obtain lines where "snd (check_health SERVING cl w) =
     w\<lparr>rpc_log := rpc_log w @ [CheckCall 5], stdout := stdout w @ lines\<rparr>"
    using snd_check_health by blast
  with CallCheckHealth show ?thesis by simp
next
  case (CallDetectObjects img iw ih t)
  then show ?thesis by (simp add: snd_detect_objects)
next
  case (CallSegmentSheets img iw ih t)
  then show ?thesis by (simp add: snd_segment_sheets)
next
  case CallClose
  then show ?thesis by (simp add: snd_close split: option.splits)
qed

lemma fresh_step:
  assumes mk: "mk = DetectObjectsCall \<or> mk = SegmentSheetsCall"
    and "inj (uuid4 w)" and "ids_fresh w"
  shows "ids_fresh (w\<lparr>uuid_count := Suc (uuid_count w),
       rpc_log := rpc_log w @ [mk \<lparr>req_id = uuid4 w (uuid_count w), image_bytes = img,
          image_height = ih, image_width = iw, channels = 3\<rparr> 30]\<rparr>)"
proof -
  have new: "uuid4 w (uuid_count w) \<notin> uuid4 w ` {..<uuid_count w}"
    using assms(2) by (auto simp add: inj_def)
  have sub: "uuid4 w ` {..<uuid_count w} \<subseteq> uuid4 w ` {..<Suc (uuid_count w)}"
    by auto
  from mk show ?thesis
    using assms(3) new sub
    by (auto simp add: ids_fresh_def request_ids_append)
qed

lemma run_call_fresh:
  assumes "inj (uuid4 w)" and "ids_fresh w"
  shows "ids_fresh (run_call SERVING cl c w)"
proof (cases c)
  case CallCheckHealth
  obtain lines where "snd (check_health SERVING cl w) =
     w\<lparr>rpc_log := rpc_log w @ [CheckCall 5], stdout := stdout w @ lines\<rparr>"
    using snd_check_health by blast
  with CallCheckHealth assms(2) show ?thesis
    by (simp add: ids_fresh_def request_ids_append)
next
  case (CallDetectObjects img iw ih t)
  then show ?thesis using fresh_step [OF _ assms, of DetectObjectsCall]
    by (simp add: snd_detect_objects)
next
  case (CallSegmentSheets img iw ih t)
  then show ?thesis using fresh_step [OF _ assms, of SegmentSheetsCall]
    by (simp add: snd_segment_sheets)
next
  case CallClose
  then show ?thesis using assms(2)
    by (simp add: snd_close ids_fresh_def split: option.splits)
qed

lemma run_calls_fresh:
  "inj (uuid4 w) \<Longrightarrow> ids_fresh w \<Longrightarrow> ids_fresh (run_calls SERVING cl cs w)"
proof (induction cs arbitrary: w)
  case Nil
  then show ?case by simp
next
  case (Cons c cs)
  have "inj (uuid4 (run_call SERVING cl c w))"
    using Cons.prems(1) by (simp add: run_call_uuid4)
  moreover have "ids_fresh (run_call SERVING cl c w)"
    using Cons.prems by (rule run_call_fresh)
  ultimately show ?case using Cons.IH by simp
qed

lemma scan_config_paths_prints:
  "\<exists>lines. snd (scan_config_paths ps w) = w\<lparr>stdout := stdout w @ lines\<rparr>"
proof (induction ps arbitrary: w)
  case Nil
  have "snd (scan_config_paths [] w) = w\<lparr>stdout := stdout w @ []\<rparr>" by simp
  then show ?case by blast
next
  case (Cons p ps)
  have step: "\<exists>lines. snd (scan_config_paths ps (print l w)) = w\<lparr>stdout := stdout w @ lines\<rparr>" for l
  proof -
    obtain lines where "snd (scan_config_paths ps (print l w)) =
        (print l w)\<lparr>stdout := stdout (print l w) @ lines\<rparr>"
      using Cons.IH by blast
    then have "snd (scan_config_paths ps (print l w)) = w\<lparr>stdout := stdout w @ (l # lines)\<rparr>"
      by (simp add: print_def)
    then show ?thesis by blast
  qed
  have here: "\<exists>lines. print l w = w\<lparr>stdout := stdout w @ lines\<rparr>" for l
    by (auto simp add: print_def)
  show ?case
    using Cons.IH [of w] step here
    by (simp split: file_state.splits sum.splits)
qed

lemma get_port_from_config_prints:
  "\<exists>lines. snd (get_port_from_config w) = w\<lparr>stdout := stdout w @ lines\<rparr>"
proof -
  obtain r w1 where rw: "scan_config_paths config_paths w = (r, w1)"
    by (cases "scan_config_paths config_paths w")
  obtain lines where l: "w1 = w\<lparr>stdout := stdout w @ lines\<rparr>"
    using scan_config_paths_prints [of config_paths w] rw by auto
  show ?thesis
  proof (cases r)
    case None
    then have "snd (get_port_from_config w) = w\<lparr>stdout := stdout w @ (lines @ [DefaultPort])\<rparr>"
      using l rw by (simp add: get_port_from_config_def print_def)
    then show ?thesis by blast
  next
    case (Some p)
    then have "snd (get_port_from_config w) = w\<lparr>stdout := stdout w @ lines\<rparr>"
      using l rw by (simp add: get_port_from_config_def)
    then show ?thesis by blast
  qed
qed

lemma get_port_from_config_returns:
  "\<exists>v. fst (get_port_from_config w) = Inr v"
  by (simp add: get_port_from_config_def split: prod.splits option.splits)

lemma map_chan_options_close:
  "map chan_options (xs[i := (xs ! i)\<lparr>close_calls := n\<rparr>]) = map chan_options xs"
proof (rule nth_equalityI)
  show "length (map chan_options (xs[i := (xs ! i)\<lparr>close_calls := n\<rparr>])) =
        length (map chan_options xs)"
    by simp
next
  fix j
  assume "j < length (map chan_options (xs[i := (xs ! i)\<lparr>close_calls := n\<rparr>]))"
  then have j: "j < length xs" by simp
  show "map chan_options (xs[i := (xs ! i)\<lparr>close_calls := n\<rparr>]) ! j = map chan_options xs ! j"
    using j by (cases "j = i") simp_all
qed

lemma run_call_chan_options:
  "map chan_options (channel_store (run_call SERVING cl c w)) = map chan_options (channel_store w)"
proof (cases c)
  case CallCheckHealth
  obtain lines where "snd (check_health SERVING cl w) =
     w\<lparr>rpc_log := rpc_log w @ [CheckCall 5], stdout := stdout w @ lines\<rparr>"
    using snd_check_health by blast
  with CallCheckHealth show ?thesis by simp
next
  case (CallDetectObjects img iw ih t)
  then show ?thesis by (simp add: snd_detect_objects)
next
  case (CallSegmentSheets img iw ih t)
  then show ?thesis by (simp add: snd_segment_sheets)
next
  case CallClose
  then show ?thesis by (simp add: snd_close map_chan_options_close split: option.splits)
qed

lemma run_calls_chan_options:
  "map chan_options (channel_store (run_calls SERVING cl cs w)) = map chan_options (channel_store w)"
  by (induction cs arbitrary: w) (simp_all add: run_call_chan_options)

lemma init_unfold:
  "\<exists>p lines. (\<forall>n. port_arg = Some n \<longrightarrow> p = PyInt n \<and> lines = []) \<and>
     init port_arg host_arg w =
       (case channel_create w (host_arg, p) of
          Some e \<Rightarrow> (Inl e, w\<lparr>stdout := stdout w @ lines\<rparr>)
        | None \<Rightarrow>
            (Inr \<lparr>port = p, host = host_arg, address = (host_arg, p),
                  channel = Some (length (channel_store w)), stub = length (channel_store w)\<rparr>,
             w\<lparr>channel_store := channel_store w @
                  [\<lparr>chan_target = (host_arg, p),
                    chan_options = [(''grpc.max_receive_message_length'', 52428800),
                                    (''grpc.max_send_message_length'', 52428800),
                                    (''grpc.keepalive_time_ms'', 10000),
                                    (''grpc.keepalive_timeout_ms'', 5000)],
                    close_calls = 0\<rparr>],
               stdout := stdout w @ lines @ [Connected (host_arg, p)]\<rparr>))"
proof (cases port_arg)
  case None
  obtain v where v: "fst (get_port_from_config w) = Inr v"
    using get_port_from_config_returns by blast
  obtain lines where l: "snd (get_port_from_config w) = w\<lparr>stdout := stdout w @ lines\<rparr>"
    using get_port_from_config_prints by blast
  from v l have g: "get_port_from_config w = (Inr v, w\<lparr>stdout := stdout w @ lines\<rparr>)"
    by (cases "get_port_from_config w") simp
  have "init port_arg host_arg w =
       (case channel_create w (host_arg, v) of
          Some e \<Rightarrow> (Inl e, w\<lparr>stdout := stdout w @ lines\<rparr>)
        | None \<Rightarrow>
            (Inr \<lparr>port = v, host = host_arg, address = (host_arg, v),
                  channel = Some (length (channel_store w)), stub = length (channel_store w)\<rparr>,
             w\<lparr>channel_store := channel_store w @
                  [\<lparr>chan_target = (host_arg, v),
                    chan_options = [(''grpc.max_receive_message_length'', 52428800),
                                    (''grpc.max_send_message_length'', 52428800),
                                    (''grpc.keepalive_time_ms'', 10000),
                                    (''grpc.keepalive_timeout_ms'', 5000)],
                    close_calls = 0\<rparr>],
               stdout := stdout w @ lines @ [Connected (host_arg, v)]\<rparr>))"
    using None g by (simp add: init_def insecure_channel_def print_def split: option.splits)
  with None show ?thesis by blast
next
  case (Some n)
  have "init port_arg host_arg w =
       (case channel_create w (host_arg, PyInt n) of
          Some e \<Rightarrow> (Inl e, w\<lparr>stdout := stdout w @ []\<rparr>)
        | None \<Rightarrow>
            (Inr \<lparr>port = PyInt n, host = host_arg, address = (host_arg, PyInt n),
                  channel = Some (length (channel_store w)), stub = length (channel_store w)\<rparr>,
             w\<lparr>channel_store := channel_store w @
                  [\<lparr>chan_target = (host_arg, PyInt n),
                    chan_options = [(''grpc.max_receive_message_length'', 52428800),
                                    (''grpc.max_send_message_length'', 52428800),
                                    (''grpc.keepalive_time_ms'', 10000),
                                    (''grpc.keepalive_timeout_ms'', 5000)],
                    close_calls = 0\<rparr>],
               stdout := stdout w @ [] @ [Connected (host_arg, PyInt n)]\<rparr>))"
    using Some by (simp add: init_def insecure_channel_def print_def split: option.splits)
  with Some show ?thesis by blast
qed

lemma key_missing_4:
  "key_missing [''ServerPort''] c \<Longrightarrow> py_get c ''ServerPort'' PyNone = Inr PyNone"
  by (cases c) (simp_all split: option.splits)

lemma key_missing_3:
  "key_missing [''AreaScanInference'', ''ServerPort''] b \<Longrightarrow>
     (case py_get b ''AreaScanInference'' (PyDict []) of
        Inl e \<Rightarrow> Inl e
      | Inr c \<Rightarrow> py_get c ''ServerPort'' PyNone) = Inr PyNone"
  by (cases b) (simp_all add: key_missing_4 split: option.splits)

lemma key_missing_2:
  "key_missing [''GrpcServices'', ''AreaScanInference'', ''ServerPort''] a \<Longrightarrow>
     (case py_get a ''GrpcServices'' (PyDict []) of
        Inl e \<Rightarrow> Inl e
      | Inr b \<Rightarrow>
     (case py_get b ''AreaScanInference'' (PyDict []) of
        Inl e \<Rightarrow> Inl e
      | Inr c \<Rightarrow> py_get c ''ServerPort'' PyNone)) = Inr PyNone"
  by (cases a) (simp_all add: key_missing_3 split: option.splits)

lemma key_missing_server_port:
  "key_missing server_port_keys config \<Longrightarrow> server_port config = Inr PyNone"
  unfolding server_port_keys_def server_port_def
  by (cases config) (simp_all add: key_missing_2 split: option.splits)

lemma no_value_scan:
  "no_value (config_files w config_path) \<Longrightarrow>
     \<exists>lines. scan_config_paths (config_path # rest) w =
              scan_config_paths rest (w\<lparr>stdout := stdout w @ lines\<rparr>)"
proof (cases "config_files w config_path")
  case Missing
  then have "scan_config_paths (config_path # rest) w =
              scan_config_paths rest (w\<lparr>stdout := stdout w @ []\<rparr>)" by simp
  then show ?thesis by blast
next
  case (LoadFails e)
  then have "scan_config_paths (config_path # rest) w =
              scan_config_paths rest (w\<lparr>stdout := stdout w @ [ConfigFailed config_path e]\<rparr>)"
    by (simp add: print_def)
  then show ?thesis by blast
next
  case (Content config)
  assume "no_value (config_files w config_path)"
  with Content have "server_port config = Inr PyNone"
    by (simp add: key_missing_server_port)
  with Content have "scan_config_paths (config_path # rest) w =
              scan_config_paths rest (w\<lparr>stdout := stdout w @ []\<rparr>)" by simp
  then show ?thesis by blast
qed

lemma configured_scan:
  "configured v (config_files w config_path) \<Longrightarrow>
     scan_config_paths (config_path # rest) w =
       (if truthy v then (Some v, print (ReadPort v config_path) w)
        else scan_config_paths rest w)"
  by (cases "config_files w config_path") simp_all

section \<open>Filtering by confidence\<close>

text \<open>
  Claim C1. Whatever the threshold \<open>t\<close> and the predictions \<open>P\<close> of the response,
  \<open>detect_objects\<close> and \<open>segment_sheets\<close> return a dictionary whose \<open>predictions\<close> are
  the dictionaries of exactly the elements of \<open>P\<close> with \<open>confidence >= t\<close>, in the
  order of the response, and whose \<open>prediction_count\<close> is the length of that list. Each
  returned dictionary carries the confidence of its prediction, and none of them is
  below \<open>t\<close>. With threshold 0 every prediction passes, the confidences being at least 0
  as the data model has them.
\<close>

theorem confidence_filter:
  "(rpc_DetectObjects w (length (rpc_log w))
       \<lparr>req_id = uuid4 w (uuid_count w), image_bytes = img, image_height = ih,
        image_width = iw, channels = 3\<rparr> = Inr P \<longrightarrow>
     fst (detect_objects self img iw ih t w) =
       Inr [(''prediction_count'',
               PyInt (int (length (filter (\<lambda>p. float_ge (confidence p) t) P)))),
            (''predictions'',
               PyList (map PyDict (map detection_dict
                 (filter (\<lambda>p. float_ge (confidence p) t) P))))])
   \<and> (rpc_SegmentSheets w (length (rpc_log w))
       \<lparr>req_id = uuid4 w (uuid_count w), image_bytes = img, image_height = ih,
        image_width = iw, channels = 3\<rparr> = Inr Q \<longrightarrow>
     fst (segment_sheets self img iw ih t w) =
       Inr [(''prediction_count'',
               PyInt (int (length (filter (\<lambda>p. float_ge (confidence p) t) Q)))),
            (''predictions'',
               PyList (map PyDict (map segment_dict
                 (filter (\<lambda>p. float_ge (confidence p) t) Q))))])
   \<and> (\<forall>p \<in> set (filter (\<lambda>p. float_ge (confidence p) t) P).
         map_of (detection_dict p) ''confidence'' = Some (PyFloat (confidence p))
         \<and> \<not> float_lt (confidence p) t)
   \<and> (\<forall>q \<in> set (filter (\<lambda>p. float_ge (confidence p) t) Q).
         map_of (segment_dict q) ''confidence'' = Some (PyFloat (confidence q))
         \<and> \<not> float_lt (confidence q) t)
   \<and> ((\<forall>p \<in> set P. float_ge (confidence p) (Fin 0)) \<longrightarrow>
         filter (\<lambda>p. float_ge (confidence p) (Fin 0)) P = P)
   \<and> ((\<forall>q \<in> set Q. float_ge (confidence q) (Fin 0)) \<longrightarrow>
         filter (\<lambda>p. float_ge (confidence p) (Fin 0)) Q = Q)"
proof -
  have d: "rpc_DetectObjects w (length (rpc_log w))
       \<lparr>req_id = uuid4 w (uuid_count w), image_bytes = img, image_height = ih,
        image_width = iw, channels = 3\<rparr> = Inr P \<longrightarrow>
     fst (detect_objects self img iw ih t w) =
       Inr [(''prediction_count'',
               PyInt (int (length (filter (\<lambda>p. float_ge (confidence p) t) P)))),
            (''predictions'',
               PyList (map PyDict (map detection_dict
                 (filter (\<lambda>p. float_ge (confidence p) t) P))))]"
    by (simp add: detect_objects_def new_uuid4_def stub_DetectObjects_def)
  have s: "rpc_SegmentSheets w (length (rpc_log w))
       \<lparr>req_id = uuid4 w (uuid_count w), image_bytes = img, image_height = ih,
        image_width = iw, channels = 3\<rparr> = Inr Q \<longrightarrow>
     fst (segment_sheets self img iw ih t w) =
       Inr [(''prediction_count'',
               PyInt (int (length (filter (\<lambda>p. float_ge (confidence p) t) Q)))),
            (''predictions'',
               PyList (map PyDict (map segment_dict
                 (filter (\<lambda>p. float_ge (confidence p) t) Q))))]"
    by (simp add: segment_sheets_def new_uuid4_def stub_SegmentSheets_def)
  have cd: "\<forall>p \<in> set (filter (\<lambda>p. float_ge (confidence p) t) P).
             map_of (detection_dict p) ''confidence'' = Some (PyFloat (confidence p))
             \<and> \<not> float_lt (confidence p) t"
    by (simp add: detection_dict_def float_ge_not_lt)
  have cs: "\<forall>q \<in> set (filter (\<lambda>p. float_ge (confidence p) t) Q).
             map_of (segment_dict q) ''confidence'' = Some (PyFloat (confidence q))
             \<and> \<not> float_lt (confidence q) t"
    by (simp add: segment_dict_def float_ge_not_lt)
  have z: "(\<forall>p \<in> set P. float_ge (confidence p) (Fin 0)) \<longrightarrow>
         filter (\<lambda>p. float_ge (confidence p) (Fin 0)) P = P"
    "(\<forall>q \<in> set Q. float_ge (confidence q) (Fin 0)) \<longrightarrow>
         filter (\<lambda>p. float_ge (confidence p) (Fin 0)) Q = Q"
    by (simp_all add: filter_id_conv)
  show ?thesis using d s cd cs z by blast
qed

text \<open>
  The scenario of the specification: threshold 0.9 against confidences 0.95, 0.4 and
  0.91 leaves two predictions, 0.95 and 0.91, in that order.
\<close>

theorem confidence_filter_witness:
  "fst (detect_objects example_client [1, 2, 3] 2560 2048 (Fin 0.9)
          (quiet_world
             \<lparr>rpc_DetectObjects := (\<lambda>n r. Inr [example_prediction (Fin 0.95),
                example_prediction (Fin 0.4), example_prediction (Fin 0.91)]),
              rpc_SegmentSheets := (\<lambda>n r. Inr [example_seg_prediction (Fin 0.95),
                example_seg_prediction (Fin 0.4), example_seg_prediction (Fin 0.91)])\<rparr>)) =
     Inr [(''prediction_count'', PyInt 2),
          (''predictions'', PyList [PyDict (detection_dict (example_prediction (Fin 0.95))),
                                    PyDict (detection_dict (example_prediction (Fin 0.91)))])]
   \<and> fst (segment_sheets example_client [1, 2, 3] 2560 2048 (Fin 0.9)
          (quiet_world
             \<lparr>rpc_DetectObjects := (\<lambda>n r. Inr [example_prediction (Fin 0.95),
                example_prediction (Fin 0.4), example_prediction (Fin 0.91)]),
              rpc_SegmentSheets := (\<lambda>n r. Inr [example_seg_prediction (Fin 0.95),
                example_seg_prediction (Fin 0.4), example_seg_prediction (Fin 0.91)])\<rparr>)) =
     Inr [(''prediction_count'', PyInt 2),
          (''predictions'', PyList [PyDict (segment_dict (example_seg_prediction (Fin 0.95))),
                                    PyDict (segment_dict (example_seg_prediction (Fin 0.91)))])]
   \<and> float_ge (confidence (example_prediction (Fin 0.95))) (Fin 0)
   \<and> float_ge (confidence (example_prediction (Fin 0.4))) (Fin 0)
   \<and> float_ge (confidence (example_prediction (Fin 0.91))) (Fin 0)
   \<and> filter (\<lambda>p. float_ge (confidence p) (Fin 0))
        [example_prediction (Fin 0.95), example_prediction (Fin 0.4),
         example_prediction (Fin 0.91)] =
       [example_prediction (Fin 0.95), example_prediction (Fin 0.4), example_prediction (Fin 0.91)]"
  using confidence_filter [where w = "quiet_world
         \<lparr>rpc_DetectObjects := (\<lambda>n r. Inr [example_prediction (Fin 0.95),
            example_prediction (Fin 0.4), example_prediction (Fin 0.91)]),
          rpc_SegmentSheets := (\<lambda>n r. Inr [example_seg_prediction (Fin 0.95),
            example_seg_prediction (Fin 0.4), example_seg_prediction (Fin 0.91)])\<rparr>"
      and img = "[1, 2, 3]" and ih = 2048 and iw = 2560
      and P = "[example_prediction (Fin 0.95), example_prediction (Fin 0.4),
        example_prediction (Fin 0.91)]"
      and Q = "[example_seg_prediction (Fin 0.95), example_seg_prediction (Fin 0.4),
        example_seg_prediction (Fin 0.91)]"
      and self = example_client and t = "Fin 0.9"]
  by (simp add: quiet_world_def example_prediction_def example_seg_prediction_def)

section \<open>The health check\<close>

text \<open>
  Claim C2. Whatever the health probe does (it raises an RPC error, it times out, it
  raises anything else, or it answers with any status), \<open>check_health\<close> raises nothing:
  it returns a boolean, true exactly when the service answered and the status of the
  answer is \<open>SERVING\<close>.
\<close>

theorem check_health_total:
  "fst (check_health SERVING self w) =
     Inr (case rpc_Check w (length (rpc_log w)) of
            Inl e \<Rightarrow> False
          | Inr response \<Rightarrow> status response = SERVING)
   \<and> (fst (check_health SERVING self w) = Inr True) =
       (\<exists>response. rpc_Check w (length (rpc_log w)) = Inr response \<and> status response = SERVING)"
  by (auto simp add: check_health_def stub_Check_def split: sum.splits exn.splits)

section \<open>Transport failures\<close>

text \<open>
  Claim C5. When the stub call of \<open>detect_objects\<close> or \<open>segment_sheets\<close> raises an RPC
  error, the method raises one exception whose message holds the text of the status
  code and the detail string, and the stub was invoked once: the call is not retried.
\<close>

theorem rpc_failure_wrapped_once:
  "(rpc_DetectObjects w (length (rpc_log w))
       \<lparr>req_id = uuid4 w (uuid_count w), image_bytes = img, image_height = ih,
        image_width = iw, channels = 3\<rparr> = Inl (RpcError code details) \<longrightarrow>
     fst (detect_objects self img iw ih t w) =
       Inl (Exception (''Object detection failed: '' @ str_status_code code @ '' - '' @ details))
     \<and> rpc_log (snd (detect_objects self img iw ih t w)) =
         rpc_log w @ [DetectObjectsCall
           \<lparr>req_id = uuid4 w (uuid_count w), image_bytes = img, image_height = ih,
            image_width = iw, channels = 3\<rparr> 30])
   \<and> (rpc_SegmentSheets w (length (rpc_log w))
       \<lparr>req_id = uuid4 w (uuid_count w), image_bytes = img, image_height = ih,
        image_width = iw, channels = 3\<rparr> = Inl (RpcError code details) \<longrightarrow>
     fst (segment_sheets self img iw ih t w) =
       Inl (Exception (''Sheet segmentation failed: '' @ str_status_code code @ '' - '' @ details))
     \<and> rpc_log (snd (segment_sheets self img iw ih t w)) =
         rpc_log w @ [SegmentSheetsCall
           \<lparr>req_id = uuid4 w (uuid_count w), image_bytes = img, image_height = ih,
            image_width = iw, channels = 3\<rparr> 30])"
  by (simp add: detect_objects_def segment_sheets_def new_uuid4_def stub_DetectObjects_def
      stub_SegmentSheets_def)

text \<open>
  The service fails the first invocation and would answer a second one: the method
  still fails, after one invocation.
\<close>

theorem rpc_failure_wrapped_once_witness:
  "fst (detect_objects example_client [1, 2, 3] 2560 2048 (Fin 0)
          (quiet_world
             \<lparr>rpc_DetectObjects := (\<lambda>n r. if n = 0
                 then Inl (RpcError UNAVAILABLE ''connection refused'') else Inr []),
              rpc_SegmentSheets := (\<lambda>n r. if n = 0
                 then Inl (RpcError DEADLINE_EXCEEDED ''Deadline Exceeded'') else Inr [])\<rparr>)) =
     Inl (Exception ''Object detection failed: StatusCode.UNAVAILABLE - connection refused'')
   \<and> length (rpc_log (snd (detect_objects example_client [1, 2, 3] 2560 2048 (Fin 0)
          (quiet_world
             \<lparr>rpc_DetectObjects := (\<lambda>n r. if n = 0
                 then Inl (RpcError UNAVAILABLE ''connection refused'') else Inr []),
              rpc_SegmentSheets := (\<lambda>n r. if n = 0
                 then Inl (RpcError DEADLINE_EXCEEDED ''Deadline Exceeded'') else Inr [])\<rparr>)))) = 1
   \<and> fst (segment_sheets example_client [1, 2, 3] 2560 2048 (Fin 0)
          (quiet_world
             \<lparr>rpc_DetectObjects := (\<lambda>n r. if n = 0
                 then Inl (RpcError UNAVAILABLE ''connection refused'') else Inr []),
              rpc_SegmentSheets := (\<lambda>n r. if n = 0
                 then Inl (RpcError DEADLINE_EXCEEDED ''Deadline Exceeded'') else Inr [])\<rparr>)) =
     Inl (Exception ''Sheet segmentation failed: StatusCode.DEADLINE_EXCEEDED - Deadline Exceeded'')"
  using rpc_failure_wrapped_once [of
     "quiet_world
        \<lparr>rpc_DetectObjects := (\<lambda>n r. if n = 0
            then Inl (RpcError UNAVAILABLE ''connection refused'') else Inr []),
         rpc_SegmentSheets := (\<lambda>n r. if n = 0
            then Inl (RpcError DEADLINE_EXCEEDED ''Deadline Exceeded'') else Inr [])\<rparr>"
     "[1, 2, 3]" 2048 2560 UNAVAILABLE "''connection refused''" example_client "Fin 0"]
   rpc_failure_wrapped_once [of
     "quiet_world
        \<lparr>rpc_DetectObjects := (\<lambda>n r. if n = 0
            then Inl (RpcError UNAVAILABLE ''connection refused'') else Inr []),
         rpc_SegmentSheets := (\<lambda>n r. if n = 0
            then Inl (RpcError DEADLINE_EXCEEDED ''Deadline Exceeded'') else Inr [])\<rparr>"
     "[1, 2, 3]" 2048 2560 DEADLINE_EXCEEDED "''Deadline Exceeded''" example_client "Fin 0"]
  by (simp add: quiet_world_def)

section \<open>Requests\<close>

text \<open>
  Claim C7. Every call of \<open>detect_objects\<close> or \<open>segment_sheets\<close> draws a new
  \<open>uuid4()\<close> and invokes the stub once, with a 30 second timeout, on a request that
  holds that id, the caller's image bytes, width and height, and 3 channels. As the
  generator never repeats a value, no request id occurs twice in the log of any sequence
  of calls.
\<close>

theorem request_fresh_id_and_fields:
  "rpc_log (snd (detect_objects self img iw ih t w)) =
     rpc_log w @ [DetectObjectsCall
       \<lparr>req_id = uuid4 w (uuid_count w), image_bytes = img, image_height = ih,
        image_width = iw, channels = 3\<rparr> 30]
   \<and> uuid_count (snd (detect_objects self img iw ih t w)) = Suc (uuid_count w)
   \<and> rpc_log (snd (segment_sheets self img iw ih t w)) =
     rpc_log w @ [SegmentSheetsCall
       \<lparr>req_id = uuid4 w (uuid_count w), image_bytes = img, image_height = ih,
        image_width = iw, channels = 3\<rparr> 30]
   \<and> uuid_count (snd (segment_sheets self img iw ih t w)) = Suc (uuid_count w)
   \<and> (inj (uuid4 w) \<and> ids_fresh w \<longrightarrow>
        distinct (request_ids (rpc_log (run_calls SERVING self cs w))))"
proof -
  have "inj (uuid4 w) \<and> ids_fresh w \<longrightarrow>
        distinct (request_ids (rpc_log (run_calls SERVING self cs w)))"
    using run_calls_fresh [of w SERVING self cs] by (simp add: ids_fresh_def)
  then show ?thesis
    by (simp add: snd_detect_objects snd_segment_sheets)
qed

theorem request_fresh_id_and_fields_witness:
  "inj (uuid4 quiet_world) \<and> ids_fresh quiet_world
   \<and> rpc_log (run_calls 1 example_client
        [CallDetectObjects [1, 2] 2560 2048 (Fin 0.5), CallCheckHealth,
         CallSegmentSheets [1, 2] 2560 2048 (Fin 0.5)] quiet_world) =
       [DetectObjectsCall \<lparr>req_id = ''u'', image_bytes = [1, 2], image_height = 2048,
          image_width = 2560, channels = 3\<rparr> 30,
        CheckCall 5,
        SegmentSheetsCall \<lparr>req_id = ''uu'', image_bytes = [1, 2], image_height = 2048,
          image_width = 2560, channels = 3\<rparr> 30]
   \<and> distinct (request_ids (rpc_log (run_calls 1 example_client
        [CallDetectObjects [1, 2] 2560 2048 (Fin 0.5), CallCheckHealth,
         CallSegmentSheets [1, 2] 2560 2048 (Fin 0.5)] quiet_world)))"
proof -
  have i: "inj (uuid4 quiet_world)"
    by (simp add: quiet_world_def inj_def)
  have f: "ids_fresh quiet_world"
    by (simp add: quiet_world_def ids_fresh_def)
  have l: "rpc_log (run_calls 1 example_client
        [CallDetectObjects [1, 2] 2560 2048 (Fin 0.5), CallCheckHealth,
         CallSegmentSheets [1, 2] 2560 2048 (Fin 0.5)] quiet_world) =
       [DetectObjectsCall \<lparr>req_id = ''u'', image_bytes = [1, 2], image_height = 2048,
          image_width = 2560, channels = 3\<rparr> 30,
        CheckCall 5,
        SegmentSheetsCall \<lparr>req_id = ''uu'', image_bytes = [1, 2], image_height = 2048,
          image_width = 2560, channels = 3\<rparr> 30]"
    by (simp add: quiet_world_def detect_objects_def segment_sheets_def check_health_def
        new_uuid4_def stub_DetectObjects_def stub_SegmentSheets_def stub_Check_def)
  show ?thesis
    using i f l request_fresh_id_and_fields [of example_client "[1, 2]" 2560 2048 "Fin 0.5"
        quiet_world 1
        "[CallDetectObjects [1, 2] 2560 2048 (Fin 0.5), CallCheckHealth,
          CallSegmentSheets [1, 2] 2560 2048 (Fin 0.5)]"]
    by simp
qed

section \<open>Channel options\<close>

text \<open>
  Claim C8. Whatever the arguments of the constructor, the channel it creates has
  exactly these options: receive and send message size 52428800 bytes (50 MiB),
  keep-alive interval 10000 ms, keep-alive timeout 5000 ms. No sequence of calls on the
  client changes the options of that channel afterwards.
\<close>

theorem channel_options_fixed:
  "fst (init port_arg host_arg w) = Inr cl \<longrightarrow>
     channel cl = Some (length (channel_store w))
     \<and> chan_options (channel_store (snd (init port_arg host_arg w)) ! length (channel_store w)) =
         [(''grpc.max_receive_message_length'', 52428800),
          (''grpc.max_send_message_length'', 52428800),
          (''grpc.keepalive_time_ms'', 10000),
          (''grpc.keepalive_timeout_ms'', 5000)]
     \<and> chan_options (channel_store (run_calls SERVING cl cs (snd (init port_arg host_arg w)))
          ! length (channel_store w)) =
         [(''grpc.max_receive_message_length'', 52428800),
          (''grpc.max_send_message_length'', 52428800),
          (''grpc.keepalive_time_ms'', 10000),
          (''grpc.keepalive_timeout_ms'', 5000)]"
proof
  assume ok: "fst (init port_arg host_arg w) = Inr cl"
  let ?w1 = "snd (init port_arg host_arg w)"
  let ?i = "length (channel_store w)"
  let ?opts = "[(''grpc.max_receive_message_length'', 52428800::int),
          (''grpc.max_send_message_length'', 52428800),
          (''grpc.keepalive_time_ms'', 10000),
          (''grpc.keepalive_timeout_ms'', 5000)]"
  obtain p lines where u: "init port_arg host_arg w =
       (case channel_create w (host_arg, p) of
          Some e \<Rightarrow> (Inl e, w\<lparr>stdout := stdout w @ lines\<rparr>)
        | None \<Rightarrow>
            (Inr \<lparr>port = p, host = host_arg, address = (host_arg, p),
                  channel = Some (length (channel_store w)), stub = length (channel_store w)\<rparr>,
             w\<lparr>channel_store := channel_store w @
                  [\<lparr>chan_target = (host_arg, p),
                    chan_options = ?opts,
                    close_calls = 0\<rparr>],
               stdout := stdout w @ lines @ [Connected (host_arg, p)]\<rparr>))"
    using init_unfold [of port_arg host_arg w] by blast
  from ok u have c: "channel cl = Some ?i"
    by (auto split: option.splits)
  from ok u have m: "map chan_options (channel_store ?w1) = map chan_options (channel_store w) @ [?opts]"
    by (auto split: option.splits)
  have m2: "map chan_options (channel_store (run_calls SERVING cl cs ?w1)) =
            map chan_options (channel_store w) @ [?opts]"
    using m by (simp add: run_calls_chan_options)
  have n: "map chan_options xs = map chan_options (channel_store w) @ [?opts]
           \<Longrightarrow> chan_options (xs ! ?i) = ?opts" for xs
  proof -
    assume a: "map chan_options xs = map chan_options (channel_store w) @ [?opts]"
    then have "length xs = Suc ?i"
      using length_map [of chan_options xs] by simp
    then have "chan_options (xs ! ?i) = map chan_options xs ! ?i" by simp
    also have "\<dots> = ?opts" using a by (simp add: nth_append)
    finally show ?thesis .
  qed
  show "channel cl = Some ?i \<and> chan_options (channel_store ?w1 ! ?i) = ?opts
     \<and> chan_options (channel_store (run_calls SERVING cl cs ?w1) ! ?i) = ?opts"
    using c n [OF m] n [OF m2] by simp
qed

theorem channel_options_fixed_witness:
  "fst (init None ''localhost'' quiet_world) = Inr example_client
   \<and> chan_options (channel_store (snd (init None ''localhost'' quiet_world)) ! 0) =
         [(''grpc.max_receive_message_length'', 52428800),
          (''grpc.max_send_message_length'', 52428800),
          (''grpc.keepalive_time_ms'', 10000),
          (''grpc.keepalive_timeout_ms'', 5000)]
   \<and> chan_options (channel_store (run_calls 1 example_client
          [CallCheckHealth, CallClose, CallDetectObjects [1] 2560 2048 (Fin 0), CallClose]
          (snd (init None ''localhost'' quiet_world))) ! 0) =
         [(''grpc.max_receive_message_length'', 52428800),
          (''grpc.max_send_message_length'', 52428800),
          (''grpc.keepalive_time_ms'', 10000),
          (''grpc.keepalive_timeout_ms'', 5000)]"
proof -
  have h: "fst (init None ''localhost'' quiet_world) = Inr example_client"
    by (simp add: init_def get_port_from_config_def config_paths_def quiet_world_def
        insecure_channel_def print_def example_client_def)
  have z: "length (channel_store quiet_world) = 0"
    by (simp add: quiet_world_def)
  show ?thesis
    using h z channel_options_fixed [of None "''localhost''" quiet_world example_client 1
        "[CallCheckHealth, CallClose, CallDetectObjects [1] 2560 2048 (Fin 0), CallClose]"]
    by simp
qed

section \<open>The explicit port\<close>

text \<open>
  Claim C4. With an explicit port \<open>n\<close> the constructor takes \<open>n\<close> as it is: the
  result does not depend on the configuration files, which are neither read nor
  reported on, no check of the range of \<open>n\<close> is made (the constructor fails only when the
  creation of the channel does), and the client's port, its address and the target of
  the channel all hold \<open>n\<close>.
\<close>

theorem explicit_port_unchanged:
  "init (Some n) host_arg (w\<lparr>config_files := cf\<rparr>) =
     (fst (init (Some n) host_arg w), (snd (init (Some n) host_arg w))\<lparr>config_files := cf\<rparr>)
   \<and> (channel_create w (host_arg, PyInt n) = None \<longrightarrow>
        (\<exists>cl. fst (init (Some n) host_arg w) = Inr cl \<and> port cl = PyInt n
              \<and> address cl = (host_arg, PyInt n))
        \<and> chan_target (last (channel_store (snd (init (Some n) host_arg w)))) = (host_arg, PyInt n)
        \<and> stdout (snd (init (Some n) host_arg w)) = stdout w @ [Connected (host_arg, PyInt n)])
   \<and> (\<forall>e. channel_create w (host_arg, PyInt n) = Some e \<longrightarrow>
        init (Some n) host_arg w = (Inl e, w))"
  by (simp add: init_def insecure_channel_def print_def split: option.splits)

text \<open>
  Port 70000, beyond the range of ports, against configuration files that hold 7001:
  the client has port 70000; without the explicit port it has 7001.
\<close>

theorem explicit_port_unchanged_witness:
  "fst (init (Some 70000) ''localhost''
          (quiet_world\<lparr>config_files := (\<lambda>p. Content (config_with (PyInt 7001)))\<rparr>)) =
     Inr \<lparr>port = PyInt 70000, host = ''localhost'', address = (''localhost'', PyInt 70000),
          channel = Some 0, stub = 0\<rparr>
   \<and> stdout (snd (init (Some 70000) ''localhost''
          (quiet_world\<lparr>config_files := (\<lambda>p. Content (config_with (PyInt 7001)))\<rparr>))) =
       [Connected (''localhost'', PyInt 70000)]
   \<and> fst (init None ''localhost''
          (quiet_world\<lparr>config_files := (\<lambda>p. Content (config_with (PyInt 7001)))\<rparr>)) =
     Inr \<lparr>port = PyInt 7001, host = ''localhost'', address = (''localhost'', PyInt 7001),
          channel = Some 0, stub = 0\<rparr>"
proof -
  have c: "channel_create quiet_world (''localhost'', PyInt 70000) = None"
    by (simp add: quiet_world_def)
  have n: "fst (init None ''localhost''
          (quiet_world\<lparr>config_files := (\<lambda>p. Content (config_with (PyInt 7001)))\<rparr>)) =
     Inr \<lparr>port = PyInt 7001, host = ''localhost'', address = (''localhost'', PyInt 7001),
          channel = Some 0, stub = 0\<rparr>"
    by (simp add: init_def get_port_from_config_def config_paths_def quiet_world_def
        insecure_channel_def print_def config_with_def server_port_def)
  have s: "stdout quiet_world = []" "length (channel_store quiet_world) = 0"
    by (simp_all add: quiet_world_def)
  show ?thesis
    using c n explicit_port_unchanged [where n = 70000 and host_arg = "''localhost''"
        and w = quiet_world and cf = "\<lambda>p. Content (config_with (PyInt 7001))"]
    by (auto simp add: init_def insecure_channel_def print_def quiet_world_def)
qed

section \<open>Closing the client\<close>

text \<open>
  Claim C6, as stated: a second \<open>close()\<close> produces no error and no duplicate side
  effect. The second half fails: \<open>close\<close> never records that the channel was closed,
  so the second call closes the channel again and prints its line again, and the world
  after two calls differs from the world after one.
\<close>

theorem close_twice_counterexample:
  "fst (init (Some 60021) ''localhost'' quiet_world) = Inr example_client
   \<and> stdout (snd (close example_client connected_world)) =
       [Connected (''localhost'', PyInt 60021), ClosedConnection]
   \<and> stdout (snd (close example_client (snd (close example_client connected_world)))) =
       [Connected (''localhost'', PyInt 60021), ClosedConnection, ClosedConnection]
   \<and> close_calls (channel_store (snd (close example_client connected_world)) ! 0) = 1
   \<and> close_calls (channel_store
        (snd (close example_client (snd (close example_client connected_world)))) ! 0) = 2
   \<and> snd (close example_client (snd (close example_client connected_world))) \<noteq>
       snd (close example_client connected_world)"
proof -
  have a: "fst (init (Some 60021) ''localhost'' quiet_world) = Inr example_client"
    by (simp add: init_def quiet_world_def insecure_channel_def print_def example_client_def)
  have b: "stdout (snd (close example_client connected_world)) =
       [Connected (''localhost'', PyInt 60021), ClosedConnection]"
    by (simp add: connected_world_def init_def quiet_world_def insecure_channel_def print_def
        example_client_def close_def channel_close_def)
  have c: "stdout (snd (close example_client (snd (close example_client connected_world)))) =
       [Connected (''localhost'', PyInt 60021), ClosedConnection, ClosedConnection]"
    by (simp add: connected_world_def init_def quiet_world_def insecure_channel_def print_def
        example_client_def close_def channel_close_def)
  have d: "close_calls (channel_store (snd (close example_client connected_world)) ! 0) = 1"
    by (simp add: connected_world_def init_def quiet_world_def insecure_channel_def print_def
        example_client_def close_def channel_close_def)
  have e: "close_calls (channel_store
        (snd (close example_client (snd (close example_client connected_world)))) ! 0) = 2"
    by (simp add: connected_world_def init_def quiet_world_def insecure_channel_def print_def
        example_client_def close_def channel_close_def)
  have f: "snd (close example_client (snd (close example_client connected_world))) \<noteq>
       snd (close example_client connected_world)"
  proof
    assume "snd (close example_client (snd (close example_client connected_world))) =
       snd (close example_client connected_world)"
    then have "stdout (snd (close example_client (snd (close example_client connected_world)))) =
       stdout (snd (close example_client connected_world))" by simp
    with b c show False by simp
  qed
  show ?thesis using a b c d e f by simp
qed

text \<open>
  Claim C6, amended. On a client whose channel is set, \<open>close()\<close> raises nothing,
  the first time and the second time; every call invokes \<open>close()\<close> on the channel
  and prints the line \<open>Closed connection\<close>, so after two calls the channel was closed
  twice and the line was printed twice.
\<close>

theorem close_twice_repeats:
  "channel self = Some ch \<longrightarrow>
     fst (close self w) = Inr ()
     \<and> fst (close self (snd (close self w))) = Inr ()
     \<and> stdout (snd (close self w)) = stdout w @ [ClosedConnection]
     \<and> stdout (snd (close self (snd (close self w)))) =
         stdout w @ [ClosedConnection, ClosedConnection]
     \<and> (ch < length (channel_store w) \<longrightarrow>
          close_calls (channel_store (snd (close self w)) ! ch) =
            close_calls (channel_store w ! ch) + 1
          \<and> close_calls (channel_store (snd (close self (snd (close self w)))) ! ch) =
            close_calls (channel_store w ! ch) + 2)"
  by (simp add: close_def channel_close_def print_def)

theorem close_twice_repeats_witness:
  "channel example_client = Some 0 \<and> 0 < length (channel_store connected_world)
   \<and> fst (close example_client (snd (close example_client connected_world))) = Inr ()
   \<and> stdout (snd (close example_client (snd (close example_client connected_world)))) =
       stdout connected_world @ [ClosedConnection, ClosedConnection]
   \<and> close_calls (channel_store
        (snd (close example_client (snd (close example_client connected_world)))) ! 0) =
       close_calls (channel_store connected_world ! 0) + 2"
proof -
  have a: "channel example_client = Some 0" by (simp add: example_client_def)
  have b: "0 < length (channel_store connected_world)"
    by (simp add: connected_world_def init_def quiet_world_def insecure_channel_def print_def)
  show ?thesis
    using a b close_twice_repeats [of example_client 0 connected_world] by simp
qed

section \<open>The port from the configuration files\<close>

lemma paths_differ: "workcell_base_json \<noteq> workcell_json"
  by (simp add: workcell_base_json_def workcell_json_def)

lemma config_world_files:
  "config_files (config_world s1 s2) workcell_base_json = s1"
  "config_files (config_world s1 s2) workcell_json = s2"
  using paths_differ by (auto simp add: config_world_def quiet_world_def)

text \<open>
  Claim C3. Without an explicit port, port resolution raises nothing, whatever the
  state of the configuration files. When each candidate file is missing, malformed or
  lacks a key of the nested path, it returns the default 60021; when a candidate holds
  a valid port (an integer other than 0) and no earlier candidate does, it returns that
  integer.
\<close>

theorem port_from_config_states:
  "(\<exists>v. fst (get_port_from_config w) = Inr v)
   \<and> (no_value (config_files w workcell_base_json) \<and> no_value (config_files w workcell_json) \<longrightarrow>
        fst (get_port_from_config w) = Inr (PyInt 60021))
   \<and> (n \<noteq> 0 \<and> configured (PyInt n) (config_files w workcell_base_json) \<longrightarrow>
        fst (get_port_from_config w) = Inr (PyInt n))
   \<and> (n \<noteq> 0 \<and> no_value (config_files w workcell_base_json)
        \<and> configured (PyInt n) (config_files w workcell_json) \<longrightarrow>
        fst (get_port_from_config w) = Inr (PyInt n))"
proof -
  have a: "\<exists>v. fst (get_port_from_config w) = Inr v"
    by (rule get_port_from_config_returns)
  have b: "fst (get_port_from_config w) = Inr (PyInt 60021)"
    if h1: "no_value (config_files w workcell_base_json)"
      and h2: "no_value (config_files w workcell_json)"
  proof -
    obtain l1 where 1: "scan_config_paths [workcell_base_json, workcell_json] w =
        scan_config_paths [workcell_json] (w\<lparr>stdout := stdout w @ l1\<rparr>)"
      using no_value_scan [OF h1] by blast
    have "no_value (config_files (w\<lparr>stdout := stdout w @ l1\<rparr>) workcell_json)"
      using h2 by simp
    then obtain l2 where 2: "scan_config_paths [workcell_json] (w\<lparr>stdout := stdout w @ l1\<rparr>) =
        scan_config_paths [] (w\<lparr>stdout := stdout w @ l1, stdout := stdout (w\<lparr>stdout := stdout w @ l1\<rparr>) @ l2\<rparr>)"
      using no_value_scan [of "w\<lparr>stdout := stdout w @ l1\<rparr>" workcell_json "[]"] by auto
    show ?thesis
      by (simp add: get_port_from_config_def config_paths_def 1 2
          del: scan_config_paths.simps(2))
  qed
  have c: "fst (get_port_from_config w) = Inr (PyInt n)"
    if "n \<noteq> 0" and "configured (PyInt n) (config_files w workcell_base_json)"
    using that by (simp add: get_port_from_config_def config_paths_def configured_scan
        del: scan_config_paths.simps(2))
  have d: "fst (get_port_from_config w) = Inr (PyInt n)"
    if h0: "n \<noteq> 0" and h1: "no_value (config_files w workcell_base_json)"
      and h2: "configured (PyInt n) (config_files w workcell_json)"
  proof -
    obtain l1 where 1: "scan_config_paths [workcell_base_json, workcell_json] w =
        scan_config_paths [workcell_json] (w\<lparr>stdout := stdout w @ l1\<rparr>)"
      using no_value_scan [OF h1] by blast
    have "configured (PyInt n) (config_files (w\<lparr>stdout := stdout w @ l1\<rparr>) workcell_json)"
      using h2 by simp
    then show ?thesis
      using h0 by (simp add: get_port_from_config_def config_paths_def 1 configured_scan
          del: scan_config_paths.simps(2))
  qed
  show ?thesis using a b c d by blast
qed

text \<open>
  A malformed first file and a second file without \<open>GrpcServices\<close> give 60021, as do
  two missing files; 7001 in the first file gives 7001; the first file missing and 60021
  in the second gives 60021.
\<close>

theorem port_from_config_states_witness:
  "no_value (LoadFails (OtherException ''JSONDecodeError''))
   \<and> no_value (Content (PyDict [(''ApplicationGrpcSettings'', PyDict [])]))
   \<and> fst (get_port_from_config
        (config_world (LoadFails (OtherException ''JSONDecodeError''))
           (Content (PyDict [(''ApplicationGrpcSettings'', PyDict [])])))) = Inr (PyInt 60021)
   \<and> fst (get_port_from_config (config_world Missing Missing)) = Inr (PyInt 60021)
   \<and> configured (PyInt 7001) (Content (config_with (PyInt 7001)))
   \<and> fst (get_port_from_config
        (config_world (Content (config_with (PyInt 7001))) Missing)) = Inr (PyInt 7001)
   \<and> fst (get_port_from_config
        (config_world Missing (Content (config_with (PyInt 60021))))) = Inr (PyInt 60021)"
proof -
  have a: "no_value (LoadFails (OtherException ''JSONDecodeError''))"
    by simp
  have b: "no_value (Content (PyDict [(''ApplicationGrpcSettings'', PyDict [])]))"
    by (simp add: server_port_keys_def)
  have c: "configured (PyInt 7001) (Content (config_with (PyInt 7001)))"
    "configured (PyInt 60021) (Content (config_with (PyInt 60021)))"
    by (simp_all add: config_with_def server_port_def)
  show ?thesis
    using a b c
      port_from_config_states [where w = "config_world (LoadFails (OtherException ''JSONDecodeError''))
           (Content (PyDict [(''ApplicationGrpcSettings'', PyDict [])]))" and n = 1]
      port_from_config_states [where w = "config_world Missing Missing" and n = 1]
      port_from_config_states [where w = "config_world (Content (config_with (PyInt 7001))) Missing"
        and n = 7001]
      port_from_config_states [where w = "config_world Missing (Content (config_with (PyInt 60021)))"
        and n = 60021]
    by (simp add: config_world_files)
qed

text \<open>
  Claim C10. A candidate file whose \<open>ServerPort\<close> is falsy (0, \<open>null\<close>, an empty
  string) is passed over as if the key were absent: the loop goes on to the next
  candidate, and with no candidate left the default 60021 is returned. A truthy value is
  returned as it is, integer or not.
\<close>

theorem falsy_port_skipped:
  "(configured v (config_files w config_path) \<and> \<not> truthy v \<longrightarrow>
      scan_config_paths (config_path # rest) w = scan_config_paths rest w)
   \<and> (configured v (config_files w config_path) \<and> truthy v \<longrightarrow>
      scan_config_paths (config_path # rest) w = (Some v, print (ReadPort v config_path) w))
   \<and> (configured v (config_files w workcell_base_json) \<and> \<not> truthy v
      \<and> configured v' (config_files w workcell_json) \<and> \<not> truthy v' \<longrightarrow>
      fst (get_port_from_config w) = Inr (PyInt 60021))
   \<and> (configured v (config_files w workcell_base_json) \<and> \<not> truthy v
      \<and> configured v' (config_files w workcell_json) \<and> truthy v' \<longrightarrow>
      fst (get_port_from_config w) = Inr v')
   \<and> (configured v (config_files w workcell_base_json) \<and> truthy v \<longrightarrow>
      fst (get_port_from_config w) = Inr v)"
proof -
  have a: "scan_config_paths (config_path # rest) w = scan_config_paths rest w"
    if "configured v (config_files w config_path)" and "\<not> truthy v"
    using that by (simp only: configured_scan if_False)
  have b: "scan_config_paths (config_path # rest) w = (Some v, print (ReadPort v config_path) w)"
    if "configured v (config_files w config_path)" and "truthy v"
    using that by (simp only: configured_scan if_True)
  have c: "fst (get_port_from_config w) = Inr (PyInt 60021)"
    if "configured v (config_files w workcell_base_json)" and "\<not> truthy v"
      and "configured v' (config_files w workcell_json)" and "\<not> truthy v'"
    using that
    by (simp add: get_port_from_config_def config_paths_def configured_scan
        del: scan_config_paths.simps(2))
  have d: "fst (get_port_from_config w) = Inr v'"
    if "configured v (config_files w workcell_base_json)" and "\<not> truthy v"
      and "configured v' (config_files w workcell_json)" and "truthy v'"
    using that
    by (simp add: get_port_from_config_def config_paths_def configured_scan
        del: scan_config_paths.simps(2))
  have e: "fst (get_port_from_config w) = Inr v"
    if "configured v (config_files w workcell_base_json)" and "truthy v"
    using that
    by (simp add: get_port_from_config_def config_paths_def configured_scan
        del: scan_config_paths.simps(2))
  show ?thesis using a b c d e by blast
qed

text \<open>
  0 in the first file and \<open>null\<close> in the second: 60021. An empty string in the first
  file and the string \<open>60021\<close> in the second: the string, not an integer.
\<close>

theorem falsy_port_skipped_witness:
  "configured (PyInt 0) (Content (config_with (PyInt 0))) \<and> \<not> truthy (PyInt 0)
   \<and> configured PyNone (Content (config_with PyNone)) \<and> \<not> truthy PyNone
   \<and> configured (PyStr '''') (Content (config_with (PyStr ''''))) \<and> \<not> truthy (PyStr '''')
   \<and> configured (PyStr ''60021'') (Content (config_with (PyStr ''60021'')))
   \<and> truthy (PyStr ''60021'')
   \<and> fst (get_port_from_config
        (config_world (Content (config_with (PyInt 0))) (Content (config_with PyNone)))) =
       Inr (PyInt 60021)
   \<and> fst (get_port_from_config
        (config_world (Content (config_with (PyStr ''''))) (Content (config_with (PyStr ''60021''))))) =
       Inr (PyStr ''60021'')
   \<and> fst (get_port_from_config
        (config_world (Content (config_with (PyStr ''60021''))) Missing)) =
       Inr (PyStr ''60021'')"
proof -
  have c: "configured v (Content (config_with v))" for v
    by (simp add: config_with_def server_port_def)
  show ?thesis
    using c
      falsy_port_skipped [where w = "config_world (Content (config_with (PyInt 0)))
          (Content (config_with PyNone))" and v = "PyInt 0" and v' = PyNone
          and config_path = workcell_base_json and rest = "[]"]
      falsy_port_skipped [where w = "config_world (Content (config_with (PyStr '''')))
          (Content (config_with (PyStr ''60021'')))" and v = "PyStr ''''" and v' = "PyStr ''60021''"
          and config_path = workcell_base_json and rest = "[]"]
      falsy_port_skipped [where w = "config_world (Content (config_with (PyStr ''60021''))) Missing"
          and v = "PyStr ''60021''" and v' = PyNone
          and config_path = workcell_base_json and rest = "[]"]
    by (simp add: config_world_files)
qed

section \<open>The exit status of the command-line tool\<close>

text \<open>
  The value \<open>main\<close> returns: 1 when the client cannot be constructed, when the health
  check fails, when neither an image nor a folder is given and when no image is found;
  0 once the loop over the images has run, whatever happened to the single images.
  No exception leaves \<open>main\<close>.
\<close>

lemma fst_close: "fst (close self w) = Inr ()"
  by (simp add: close_def split: option.splits)

lemma fst_check_health: "\<exists>b. fst (check_health SERVING self w) = Inr b"
  by (auto simp add: check_health_def stub_Check_def split: sum.splits exn.splits)

lemma main_returns:
  "fst (main SERVING image_arg folder_arg model_arg port_arg confidence_arg host_arg w) =
     Inr (case init port_arg host_arg w of
            (Inl e, w1) \<Rightarrow> 1
          | (Inr cl, w1) \<Rightarrow>
              (case check_health SERVING cl w1 of
                 (Inr True, w2) \<Rightarrow>
                   (case image_paths_of image_arg folder_arg w2 of
                      None \<Rightarrow> 1
                    | Some [] \<Rightarrow> 1
                    | Some (p # ps) \<Rightarrow> 0)
               | (r, w2) \<Rightarrow> 1))"
proof (cases "init port_arg host_arg w")
  case (Pair r w1)
  show ?thesis
  proof (cases r)
    case (Inl e)
    with Pair show ?thesis by (simp add: main_def)
  next
    case (Inr cl)
    obtain h w2 where h: "check_health SERVING cl w1 = (h, w2)"
      by (cases "check_health SERVING cl w1")
    obtain b where b: "h = Inr b"
      using fst_check_health [of SERVING cl w1] h by auto
    show ?thesis
    proof (cases b)
      case False
      with Pair Inr h b show ?thesis by (simp add: main_def)
    next
      case True
      show ?thesis
      proof (cases "image_paths_of image_arg folder_arg w2")
        case None
        with Pair Inr h b True show ?thesis by (simp add: main_def)
      next
        case (Some ps)
        obtain u w3 where c: "close cl (process_images cl model_arg confidence_arg ps w2) = (u, w3)"
          by (cases "close cl (process_images cl model_arg confidence_arg ps w2)")
        then have "u = Inr ()"
          using fst_close [of cl "process_images cl model_arg confidence_arg ps w2"] by simp
        with c Some Pair Inr h b True show ?thesis
          by (cases ps) (simp_all add: main_def)
      qed
    qed
  qed
qed

lemma cli_exit_status_zero:
  "cli_exit_status SERVING image_arg folder_arg model_arg port_arg confidence_arg host_arg w = 0"
  by (simp add: cli_exit_status_def click_standalone_def main_returns)

text \<open>
  Claim C9, at two setup failures: a healthy service with neither \<open>--image\<close> nor
  \<open>--folder\<close>, and a service whose health probe fails. The claim has the tool exit
  with status 1. \<open>main\<close> returns 1 in both, but the click command that wraps it drops
  the value: the process exits with status 0.
\<close>

theorem cli_setup_failure_exit_status:
  "fst (main 1 None None both None (Fin 0.5) ''localhost'' quiet_world) = Inr 1
   \<and> cli_exit_status 1 None None both None (Fin 0.5) ''localhost'' quiet_world = 0
   \<and> fst (main 1 (Some ''a.png'') None both None (Fin 0.5) ''localhost''
        (quiet_world\<lparr>rpc_Check := (\<lambda>n. Inl (RpcError UNAVAILABLE ''failed to connect''))\<rparr>)) = Inr 1
   \<and> cli_exit_status 1 (Some ''a.png'') None both None (Fin 0.5) ''localhost''
        (quiet_world\<lparr>rpc_Check := (\<lambda>n. Inl (RpcError UNAVAILABLE ''failed to connect''))\<rparr>) = 0"
proof -
  have a: "fst (main 1 None None both None (Fin 0.5) ''localhost'' quiet_world) = Inr 1"
    by (simp add: main_def init_def get_port_from_config_def config_paths_def quiet_world_def
        insecure_channel_def print_def check_health_def stub_Check_def image_paths_of_def)
  have b: "fst (main 1 (Some ''a.png'') None both None (Fin 0.5) ''localhost''
        (quiet_world\<lparr>rpc_Check := (\<lambda>n. Inl (RpcError UNAVAILABLE ''failed to connect''))\<rparr>)) = Inr 1"
    by (simp add: main_def init_def get_port_from_config_def config_paths_def quiet_world_def
        insecure_channel_def print_def check_health_def stub_Check_def image_paths_of_def)
  show ?thesis using a b by (simp add: cli_exit_status_def click_standalone_def)
qed

end
